theory Spec2Isabelle
  imports Complex_Main "HOL-Library.Sublist"
begin

section \<open>Values, strings and exceptions of the Python program\<close>

text \<open>
  The development embeds \<^verbatim>\<open>src/server.py\<close>. Python strings are modelled as
  \<^typ>\<open>string\<close>; the model is exact on ASCII text: \<^verbatim>\<open>str.upper\<close> maps the
  letters a..z and \<^verbatim>\<open>str.strip\<close> removes the ASCII white space of Python's
  \<^verbatim>\<open>str.isspace\<close>. Characters above 127 are left as they are.
\<close>

abbreviation nl :: string where
  "nl \<equiv> [CHR 0x0A]"

abbreviation sq :: string where
  "sq \<equiv> [CHR 0x27]"

text \<open>The JSON values an argument mapping can carry (fractions, arrays and objects
  are not modelled).\<close>

datatype pyval = VStr string | VInt int | VBool bool | VNone

text \<open>The exceptions the program can meet. All of them are subclasses of
  \<^verbatim>\<open>Exception\<close>; \<open>DriverError m\<close> is any exception raised by the database
  driver, carried by its \<^verbatim>\<open>str()\<close> rendering \<open>m\<close>.\<close>

datatype py_exn =
    KeyError string
  | TypeError string
  | ValueError string
  | AttributeError string
  | ZeroDivisionError
  | DriverError string

fun str_exn :: "py_exn \<Rightarrow> string" where
  "str_exn (KeyError k) = sq @ k @ sq"
| "str_exn (TypeError m) = m"
| "str_exn (ValueError m) = m"
| "str_exn (AttributeError m) = m"
| "str_exn ZeroDivisionError = ''division by zero''"
| "str_exn (DriverError m) = m"

fun type_name :: "pyval \<Rightarrow> string" where
  "type_name (VStr s) = ''str''"
| "type_name (VInt n) = ''int''"
| "type_name (VBool b) = ''bool''"
| "type_name VNone = ''NoneType''"

fun truthy :: "pyval \<Rightarrow> bool" where
  "truthy (VStr s) = (s \<noteq> [])"
| "truthy (VInt n) = (n \<noteq> 0)"
| "truthy (VBool b) = b"
| "truthy VNone = False"

subsection \<open>Decimal rendering of integers\<close>

definition digit_char :: "nat \<Rightarrow> char" where
  "digit_char d = (''0123456789'' ! d)"

fun str_nat :: "nat \<Rightarrow> string" where
  "str_nat n = (if n < 10 then [digit_char n] else str_nat (n div 10) @ [digit_char (n mod 10)])"

declare str_nat.simps [simp del]

definition str_int :: "int \<Rightarrow> string" where
  "str_int i = (if i < 0 then ''-'' @ str_nat (nat (- i)) else str_nat (nat i))"

text \<open>\<^verbatim>\<open>str(v)\<close>, as an f-string field renders a value.\<close>

fun py_str :: "pyval \<Rightarrow> string" where
  "py_str (VStr s) = s"
| "py_str (VInt n) = str_int n"
| "py_str (VBool b) = (if b then ''True'' else ''False'')"
| "py_str VNone = ''None''"

subsection \<open>\<^verbatim>\<open>strip\<close>, \<^verbatim>\<open>upper\<close> and \<^verbatim>\<open>startswith\<close>\<close>

definition py_isspace :: "char \<Rightarrow> bool" where
  "py_isspace c = (c \<in> set [CHR 0x09, CHR 0x0A, CHR 0x0B, CHR 0x0C, CHR 0x0D,
                            CHR 0x1C, CHR 0x1D, CHR 0x1E, CHR 0x1F, CHR 0x20])"

definition py_strip :: "string \<Rightarrow> string" where
  "py_strip s = rev (dropWhile py_isspace (rev (dropWhile py_isspace s)))"

definition py_upper_char :: "char \<Rightarrow> char" where
  "py_upper_char c =
     (case map_of (zip ''abcdefghijklmnopqrstuvwxyz'' ''ABCDEFGHIJKLMNOPQRSTUVWXYZ'') c of
        Some u \<Rightarrow> u
      | None \<Rightarrow> c)"

definition py_upper :: "string \<Rightarrow> string" where
  "py_upper s = map py_upper_char s"

text \<open>\<^verbatim>\<open>s.startswith(p)\<close> and its form with a tuple of prefixes.\<close>

definition startswith :: "string \<Rightarrow> string \<Rightarrow> bool" where
  "startswith s p = (take (length p) s = p)"

definition startswith_any :: "string \<Rightarrow> string list \<Rightarrow> bool" where
  "startswith_any s ps = list_ex (startswith s) ps"

section \<open>The statement classifier\<close>

text \<open>
  The program has no classifier function; both \<^verbatim>\<open>execute_sql\<close> (line 153) and
  \<^verbatim>\<open>benchmark_query\<close> (lines 315 and 322) test
  \<^verbatim>\<open>query.strip().upper().startswith(('SELECT', 'SHOW', 'DESCRIBE', 'EXPLAIN'))\<close>.
  \<open>classify\<close> is that expression, with the two verdicts named as the specification
  names them.
\<close>

datatype statement_class = Projection | Mutation

definition projection_keywords :: "string list" where
  "projection_keywords = [''SELECT'', ''SHOW'', ''DESCRIBE'', ''EXPLAIN'']"

definition classify :: "string \<Rightarrow> statement_class" where
  "classify query =
     (if startswith_any (py_upper (py_strip query)) projection_keywords
      then Projection else Mutation)"

text \<open>On a value that is not a string, \<^verbatim>\<open>query.strip()\<close> raises.\<close>

fun classify_val :: "pyval \<Rightarrow> py_exn + statement_class" where
  "classify_val (VStr s) = Inr (classify s)"
| "classify_val v =
     Inl (AttributeError (sq @ type_name v @ sq @ '' object has no attribute '' @ sq @ ''strip'' @ sq))"

section \<open>Configuration, database driver and world\<close>

text \<open>The class \<^verbatim>\<open>TiDBConnection\<close> (lines 23-43): the fields read from the process
  environment when the module is loaded.\<close>

record TiDBConnection =
  host :: string
  port :: int
  username :: string
  password :: string
  database :: string

datatype cursorclass = DictCursor

text \<open>The keyword arguments of \<^verbatim>\<open>pymysql.connect\<close>. The \<^verbatim>\<open>ssl\<close> argument is
  either the dictionary \<^verbatim>\<open>{'ssl': True}\<close> or \<^verbatim>\<open>None\<close>.\<close>

record connect_args =
  ca_host :: string
  ca_port :: int
  ca_user :: string
  ca_password :: string
  ca_database :: string
  ca_ssl :: "(string \<times> bool) list option"
  ca_cursorclass :: cursorclass

definition connect_kwargs :: "TiDBConnection \<Rightarrow> connect_args" where
  "connect_kwargs self =
     \<lparr> ca_host = host self,
       ca_port = port self,
       ca_user = username self,
       ca_password = password self,
       ca_database = database self,
       ca_ssl = (if host self \<noteq> ''localhost'' then Some [(''ssl'', True)] else None),
       ca_cursorclass = DictCursor \<rparr>"

text \<open>
  The statements the program sends. \<open>UserQuery q\<close> is \<^verbatim>\<open>cursor.execute(query)\<close>
  with the caller's value. The others are the fixed statements of the source, named
  here by what they select, with their parameters:
  \<^item> \<open>TableInfoOne schema name\<close>: lines 196-207, table_name, table_rows, data_length,
    index_length, (data_length + index_length) as total_size, auto_increment,
    table_comment FROM information_schema.tables WHERE table_schema = %s AND
    table_name = %s;
  \<^item> \<open>TableInfoAll schema\<close>: lines 210-222, the same columns WHERE table_schema = %s
    ORDER BY total_size DESC;
  \<^item> \<open>CurrentDbVersion\<close>: line 256, SELECT DATABASE() as current_db, VERSION() as
    version;
  \<^item> \<open>SchemaTotals schema\<close>: lines 260-269, COUNT and SUM aggregates over
    information_schema.tables WHERE table_schema = %s;
  \<^item> \<open>ThreadsConnected\<close>: line 274, SHOW STATUS LIKE 'Threads_connected'.
\<close>

datatype statement =
    UserQuery pyval
  | TableInfoOne string pyval
  | TableInfoAll string
  | CurrentDbVersion
  | SchemaTotals string
  | ThreadsConnected

text \<open>A row of a \<^verbatim>\<open>DictCursor\<close>: column names with their values, in column order.
  Numeric columns are modelled by their integer value.\<close>

datatype sqlval = SqlNull | SqlInt int | SqlStr string

type_synonym row = "(string \<times> sqlval) list"

text \<open>Every call that leaves the program is recorded, in order. Calls on a connection
  or on its cursor carry the connection's handle.\<close>

datatype event =
    EConnect connect_args
  | ECursor nat
  | EExecute nat statement
  | EFetchall nat
  | EFetchone nat
  | ECommit nat
  | EClose nat
  | ETime

text \<open>
  The environment: what the driver, the clock and Python's library answer. Each answer
  may depend on the whole history of calls, the current call included, so one
  environment stands for one arbitrary run. \<open>Some m\<close> (or \<open>Inl m\<close>) means that the
  call raises an exception whose \<^verbatim>\<open>str()\<close> is \<open>m\<close>. Clock readings and elapsed times
  are exact rationals; \<open>fmt_2f\<close> is the format \<^verbatim>\<open>:.2f\<close> and \<open>json_dumps\<close> is
  \<^verbatim>\<open>json.dumps(results, indent=2, default=str)\<close>.
\<close>

record env =
  connect_res :: "event list \<Rightarrow> string option"
  cursor_res :: "event list \<Rightarrow> string option"
  execute_res :: "event list \<Rightarrow> string option"
  fetchall_res :: "event list \<Rightarrow> string + row list"
  fetchone_res :: "event list \<Rightarrow> string + row option"
  commit_res :: "event list \<Rightarrow> string option"
  rowcount_res :: "event list \<Rightarrow> int"
  time_res :: "event list \<Rightarrow> rat"
  fmt_2f :: "rat \<Rightarrow> string"
  json_dumps :: "row list \<Rightarrow> string"

record world =
  trace :: "event list"
  open_conns :: "nat list"
  next_handle :: nat

type_synonym 'a io = "world \<Rightarrow> (py_exn + 'a) \<times> world"

definition return_io :: "'a \<Rightarrow> 'a io" where
  "return_io x w = (Inr x, w)"

definition raise_io :: "py_exn \<Rightarrow> 'a io" where
  "raise_io ex w = (Inl ex, w)"

definition lift_io :: "py_exn + 'a \<Rightarrow> 'a io" where
  "lift_io r w = (r, w)"

definition bind_io :: "'a io \<Rightarrow> ('a \<Rightarrow> 'b io) \<Rightarrow> 'b io" where
  "bind_io m f w = (case m w of (Inl ex, w1) \<Rightarrow> (Inl ex, w1) | (Inr x, w1) \<Rightarrow> f x w1)"

definition bind_exn :: "py_exn + 'a \<Rightarrow> ('a \<Rightarrow> py_exn + 'b) \<Rightarrow> py_exn + 'b" where
  "bind_exn r f = (case r of Inl ex \<Rightarrow> Inl ex | Inr x \<Rightarrow> f x)"

definition log_event :: "event \<Rightarrow> world \<Rightarrow> world" where
  "log_event ev w = w\<lparr>trace := trace w @ [ev]\<rparr>"

definition driver_call :: "event \<Rightarrow> (event list \<Rightarrow> string option) \<Rightarrow> unit io" where
  "driver_call ev res w =
     (let w1 = log_event ev w in
      case res (trace w1) of
        Some m \<Rightarrow> (Inl (DriverError m), w1)
      | None \<Rightarrow> (Inr (), w1))"

text \<open>\<^verbatim>\<open>TiDBConnection.get_connection\<close> (lines 33-43). A successful connect opens a
  fresh handle.\<close>

definition get_connection :: "env \<Rightarrow> TiDBConnection \<Rightarrow> nat io" where
  "get_connection e self w =
     (let w1 = log_event (EConnect (connect_kwargs self)) w in
      case connect_res e (trace w1) of
        Some m \<Rightarrow> (Inl (DriverError m), w1)
      | None \<Rightarrow>
          (Inr (next_handle w1),
           w1\<lparr>open_conns := next_handle w1 # open_conns w1,
              next_handle := Suc (next_handle w1)\<rparr>))"

definition connection_cursor :: "env \<Rightarrow> nat \<Rightarrow> unit io" where
  "connection_cursor e connection = driver_call (ECursor connection) (cursor_res e)"

definition cursor_execute :: "env \<Rightarrow> nat \<Rightarrow> statement \<Rightarrow> unit io" where
  "cursor_execute e connection stmt = driver_call (EExecute connection stmt) (execute_res e)"

definition cursor_fetchall :: "env \<Rightarrow> nat \<Rightarrow> row list io" where
  "cursor_fetchall e connection w =
     (let w1 = log_event (EFetchall connection) w in
      case fetchall_res e (trace w1) of
        Inl m \<Rightarrow> (Inl (DriverError m), w1)
      | Inr rows \<Rightarrow> (Inr rows, w1))"

definition cursor_fetchone :: "env \<Rightarrow> nat \<Rightarrow> row option io" where
  "cursor_fetchone e connection w =
     (let w1 = log_event (EFetchone connection) w in
      case fetchone_res e (trace w1) of
        Inl m \<Rightarrow> (Inl (DriverError m), w1)
      | Inr r \<Rightarrow> (Inr r, w1))"

definition connection_commit :: "env \<Rightarrow> nat \<Rightarrow> unit io" where
  "connection_commit e connection = driver_call (ECommit connection) (commit_res e)"

text \<open>\<^verbatim>\<open>cursor.rowcount\<close> is an attribute: reading it is no call.\<close>

definition cursor_rowcount :: "env \<Rightarrow> nat \<Rightarrow> int io" where
  "cursor_rowcount e connection w = (Inr (rowcount_res e (trace w)), w)"

text \<open>\<^verbatim>\<open>connection.close()\<close> releases the handle; the driver's close marks the
  connection closed whatever the state of the link.\<close>

definition connection_close :: "nat \<Rightarrow> world \<Rightarrow> world" where
  "connection_close connection w =
     (log_event (EClose connection) w)\<lparr>open_conns := remove1 connection (open_conns w)\<rparr>"

definition time_time :: "env \<Rightarrow> rat io" where
  "time_time e w = (let w1 = log_event ETime w in (Inr (time_res e (trace w1)), w1))"

text \<open>\<^verbatim>\<open>try: body finally: connection.close()\<close>\<close>

definition try_finally_close :: "nat \<Rightarrow> 'a io \<Rightarrow> 'a io" where
  "try_finally_close connection body w =
     (case body w of (r, w1) \<Rightarrow> (r, connection_close connection w1))"

text \<open>The content block \<^verbatim>\<open>TextContent(type="text", text=...)\<close> every tool returns.\<close>

datatype TextContent = TextContent (tc_type: string) (tc_text: string)

section \<open>execute_sql\<close>

text \<open>\<^verbatim>\<open>time.time() if measure_time else None\<close>\<close>

definition time_if :: "env \<Rightarrow> bool \<Rightarrow> rat option io" where
  "time_if e measure_time =
     (if measure_time then bind_io (time_time e) (\<lambda>t. return_io (Some t))
      else return_io None)"

text \<open>Lines 157-159 and 174-176. Subtracting \<^verbatim>\<open>None\<close> would raise; both readings
  are present whenever \<open>measure_time\<close> holds.\<close>

definition execution_time_line ::
  "env \<Rightarrow> bool \<Rightarrow> rat option \<Rightarrow> rat option \<Rightarrow> py_exn + string" where
  "execution_time_line e measure_time start_time end_time =
     (if measure_time then
        (case (end_time, start_time) of
           (Some t1, Some t0) \<Rightarrow>
             Inr (''Execution time: '' @ fmt_2f e ((t1 - t0) * 1000) @ '' ms'' @ nl)
         | _ \<Rightarrow> Inl (TypeError ''unsupported operand type(s) for -''))
      else Inr [])"

definition rows_report :: "env \<Rightarrow> string \<Rightarrow> row list \<Rightarrow> string" where
  "rows_report e time_line results =
     ''Query executed successfully.'' @ nl @ time_line
     @ ''Rows returned: '' @ str_nat (length results) @ nl @ nl
     @ (if results \<noteq> [] then json_dumps e results else ''No rows returned.'')"

definition affected_report :: "string \<Rightarrow> int \<Rightarrow> string" where
  "affected_report time_line affected_rows =
     ''Query executed successfully.'' @ nl @ time_line
     @ ''Affected rows: '' @ str_int affected_rows"

definition execute_sql_body :: "env \<Rightarrow> nat \<Rightarrow> pyval \<Rightarrow> bool \<Rightarrow> TextContent list io" where
  "execute_sql_body e connection query measure_time =
     bind_io (connection_cursor e connection) (\<lambda>cursor.
     bind_io (time_if e measure_time) (\<lambda>start_time.
     bind_io (cursor_execute e connection (UserQuery query)) (\<lambda>_.
     bind_io (time_if e measure_time) (\<lambda>end_time.
     bind_io (lift_io (classify_val query)) (\<lambda>verdict.
       case verdict of
         Projection \<Rightarrow>
           bind_io (cursor_fetchall e connection) (\<lambda>results.
           bind_io (lift_io (execution_time_line e measure_time start_time end_time)) (\<lambda>time_line.
           return_io [TextContent ''text'' (rows_report e time_line results)]))
       | Mutation \<Rightarrow>
           bind_io (connection_commit e connection) (\<lambda>_.
           bind_io (cursor_rowcount e connection) (\<lambda>affected_rows.
           bind_io (lift_io (execution_time_line e measure_time start_time end_time)) (\<lambda>time_line.
           return_io [TextContent ''text'' (affected_report time_line affected_rows)]))))))))"

definition execute_sql ::
  "env \<Rightarrow> TiDBConnection \<Rightarrow> (string \<rightharpoonup> pyval) \<Rightarrow> TextContent list io" where
  "execute_sql e db arguments =
     (case arguments ''query'' of
        None \<Rightarrow> raise_io (KeyError ''query'')
      | Some query \<Rightarrow>
          (let measure_time =
                 truthy (case arguments ''measure_time'' of None \<Rightarrow> VBool False | Some v \<Rightarrow> v)
           in bind_io (get_connection e db) (\<lambda>connection.
              try_finally_close connection
                (execute_sql_body e connection query measure_time))))"

section \<open>get_table_info\<close>

text \<open>\<^verbatim>\<open>table['key']\<close> on a row, and on the result of \<^verbatim>\<open>fetchone()\<close>, which may
  be \<^verbatim>\<open>None\<close>.\<close>

definition row_get :: "row \<Rightarrow> string \<Rightarrow> py_exn + sqlval" where
  "row_get r k = (case map_of r k of None \<Rightarrow> Inl (KeyError k) | Some v \<Rightarrow> Inr v)"

definition subscript :: "row option \<Rightarrow> string \<Rightarrow> py_exn + sqlval" where
  "subscript r k =
     (case r of
        None \<Rightarrow> Inl (TypeError (sq @ ''NoneType'' @ sq @ '' object is not subscriptable''))
      | Some r' \<Rightarrow> row_get r' k)"

fun sql_str :: "sqlval \<Rightarrow> string" where
  "sql_str SqlNull = ''None''"
| "sql_str (SqlInt n) = str_int n"
| "sql_str (SqlStr s) = s"

fun sql_truthy :: "sqlval \<Rightarrow> bool" where
  "sql_truthy SqlNull = False"
| "sql_truthy (SqlInt n) = (n \<noteq> 0)"
| "sql_truthy (SqlStr s) = (s \<noteq> [])"

text \<open>The format \<^verbatim>\<open>:,\<close>: decimal digits in groups of three.\<close>

definition pad3 :: "nat \<Rightarrow> string" where
  "pad3 m = [digit_char (m div 100), digit_char (m div 10 mod 10), digit_char (m mod 10)]"

fun group3 :: "nat \<Rightarrow> string" where
  "group3 n = (if n < 1000 then str_nat n else group3 (n div 1000) @ '','' @ pad3 (n mod 1000))"

declare group3.simps [simp del]

fun fmt_comma :: "sqlval \<Rightarrow> py_exn + string" where
  "fmt_comma (SqlInt n) = Inr (if n < 0 then ''-'' @ group3 (nat (- n)) else group3 (nat n))"
| "fmt_comma SqlNull =
     Inl (TypeError ''unsupported format string passed to NoneType.__format__'')"
| "fmt_comma (SqlStr s) =
     Inl (ValueError (''Cannot specify '' @ sq @ '','' @ sq @ '' with '' @ sq @ ''s'' @ sq @ ''.''))"

text \<open>\<^verbatim>\<open>v/1024/1024\<close>\<close>

fun div_mb :: "sqlval \<Rightarrow> py_exn + rat" where
  "div_mb (SqlInt n) = Inr (of_int n / 1024 / 1024)"
| "div_mb SqlNull =
     Inl (TypeError (''unsupported operand type(s) for /: '' @ sq @ ''NoneType'' @ sq
                     @ '' and '' @ sq @ ''int'' @ sq))"
| "div_mb (SqlStr s) =
     Inl (TypeError (''unsupported operand type(s) for /: '' @ sq @ ''str'' @ sq
                     @ '' and '' @ sq @ ''int'' @ sq))"

text \<open>One line \<^verbatim>\<open>"  Label: {v:,} bytes ({v/1024/1024:.2f} MB)\n"\<close>, where \<open>v\<close> is
  looked up twice under the same key (lines 234-236 and 286-288).\<close>

definition size_line ::
  "env \<Rightarrow> string \<Rightarrow> (string \<Rightarrow> py_exn + sqlval) \<Rightarrow> string \<Rightarrow> py_exn + string" where
  "size_line e label lookup key =
     bind_exn (lookup key) (\<lambda>v.
     bind_exn (fmt_comma v) (\<lambda>bytes.
     bind_exn (lookup key) (\<lambda>v'.
     bind_exn (div_mb v') (\<lambda>mb.
       Inr (''  '' @ label @ '': '' @ bytes @ '' bytes ('' @ fmt_2f e mb @ '' MB)'' @ nl)))))"

text \<open>The body of the loop over the rows (lines 232-241).\<close>

definition table_block :: "env \<Rightarrow> row \<Rightarrow> py_exn + string" where
  "table_block e table =
     bind_exn (row_get table ''table_name'') (\<lambda>name.
     bind_exn (row_get table ''table_rows'') (\<lambda>n_rows.
     bind_exn (fmt_comma n_rows) (\<lambda>rows_text.
     bind_exn (size_line e ''Data size'' (row_get table) ''data_length'') (\<lambda>data_line.
     bind_exn (size_line e ''Index size'' (row_get table) ''index_length'') (\<lambda>index_line.
     bind_exn (size_line e ''Total size'' (row_get table) ''total_size'') (\<lambda>total_line.
     bind_exn (row_get table ''auto_increment'') (\<lambda>auto_increment.
     bind_exn (row_get table ''table_comment'') (\<lambda>table_comment.
       Inr (''Table: '' @ sql_str name @ nl
            @ ''  Rows: '' @ rows_text @ nl
            @ data_line @ index_line @ total_line
            @ (if sql_truthy auto_increment
               then ''  Auto increment: '' @ sql_str auto_increment @ nl else [])
            @ (if sql_truthy table_comment
               then ''  Comment: '' @ sql_str table_comment @ nl else [])
            @ nl)))))))))"

fun render_tables :: "env \<Rightarrow> row list \<Rightarrow> string \<Rightarrow> py_exn + string" where
  "render_tables e [] result_text = Inr result_text"
| "render_tables e (table # rest) result_text =
     (case table_block e table of
        Inl ex \<Rightarrow> Inl ex
      | Inr block \<Rightarrow> render_tables e rest (result_text @ block))"

definition get_table_info_statement :: "TiDBConnection \<Rightarrow> pyval \<Rightarrow> statement" where
  "get_table_info_statement db table_name =
     (if truthy table_name then TableInfoOne (database db) table_name
      else TableInfoAll (database db))"

definition get_table_info_body ::
  "env \<Rightarrow> TiDBConnection \<Rightarrow> nat \<Rightarrow> pyval \<Rightarrow> TextContent list io" where
  "get_table_info_body e db connection table_name =
     bind_io (connection_cursor e connection) (\<lambda>cursor.
     bind_io (cursor_execute e connection (get_table_info_statement db table_name)) (\<lambda>_.
     bind_io (cursor_fetchall e connection) (\<lambda>results.
       if results = [] then return_io [TextContent ''text'' ''No tables found.'']
       else bind_io (lift_io (render_tables e results (''Table Information:'' @ nl @ nl)))
              (\<lambda>result_text. return_io [TextContent ''text'' result_text]))))"

definition get_table_info ::
  "env \<Rightarrow> TiDBConnection \<Rightarrow> (string \<rightharpoonup> pyval) \<Rightarrow> TextContent list io" where
  "get_table_info e db arguments =
     (let table_name = (case arguments ''table_name'' of None \<Rightarrow> VNone | Some v \<Rightarrow> v)
      in bind_io (get_connection e db) (\<lambda>connection.
         try_finally_close connection (get_table_info_body e db connection table_name)))"

section \<open>get_database_stats\<close>

definition row_truthy :: "row option \<Rightarrow> bool" where
  "row_truthy r = (case r of None \<Rightarrow> False | Some r' \<Rightarrow> r' \<noteq> [])"

definition database_stats_text ::
  "env \<Rightarrow> TiDBConnection \<Rightarrow> row option \<Rightarrow> row option \<Rightarrow> row option \<Rightarrow> py_exn + string" where
  "database_stats_text e db db_info stats connections =
     bind_exn (subscript db_info ''current_db'') (\<lambda>current_db.
     bind_exn (subscript db_info ''version'') (\<lambda>version.
     bind_exn (subscript stats ''table_count'') (\<lambda>table_count.
     bind_exn (subscript stats ''total_rows'') (\<lambda>total_rows.
     bind_exn (fmt_comma total_rows) (\<lambda>rows_text.
     bind_exn (size_line e ''Data size'' (subscript stats) ''total_data_size'') (\<lambda>data_line.
     bind_exn (size_line e ''Index size'' (subscript stats) ''total_index_size'') (\<lambda>index_line.
     bind_exn (size_line e ''Total size'' (subscript stats) ''total_size'') (\<lambda>total_line.
     bind_exn (if row_truthy connections
               then bind_exn (subscript connections ''Value'')
                      (\<lambda>v. Inr (''Active connections: '' @ sql_str v @ nl))
               else Inr []) (\<lambda>connections_line.
       Inr (''Database Statistics'' @ nl
            @ ''=================='' @ nl @ nl
            @ ''Database: '' @ sql_str current_db @ nl
            @ ''Version: '' @ sql_str version @ nl
            @ ''Host: '' @ host db @ '':'' @ str_int (port db) @ nl @ nl
            @ ''Table Statistics:'' @ nl
            @ ''  Total tables: '' @ sql_str table_count @ nl
            @ ''  Total rows: '' @ rows_text @ nl
            @ data_line @ index_line @ total_line @ nl
            @ connections_line))))))))))"

definition get_database_stats_body ::
  "env \<Rightarrow> TiDBConnection \<Rightarrow> nat \<Rightarrow> TextContent list io" where
  "get_database_stats_body e db connection =
     bind_io (connection_cursor e connection) (\<lambda>cursor.
     bind_io (cursor_execute e connection CurrentDbVersion) (\<lambda>_.
     bind_io (cursor_fetchone e connection) (\<lambda>db_info.
     bind_io (cursor_execute e connection (SchemaTotals (database db))) (\<lambda>_.
     bind_io (cursor_fetchone e connection) (\<lambda>stats.
     bind_io (cursor_execute e connection ThreadsConnected) (\<lambda>_.
     bind_io (cursor_fetchone e connection) (\<lambda>connections.
     bind_io (lift_io (database_stats_text e db db_info stats connections)) (\<lambda>result_text.
       return_io [TextContent ''text'' result_text]))))))))"

definition get_database_stats ::
  "env \<Rightarrow> TiDBConnection \<Rightarrow> (string \<rightharpoonup> pyval) \<Rightarrow> TextContent list io" where
  "get_database_stats e db arguments =
     bind_io (get_connection e db) (\<lambda>connection.
     try_finally_close connection (get_database_stats_body e db connection))"

section \<open>benchmark_query\<close>

text \<open>\<^verbatim>\<open>iterations > 50\<close>: an integer or a boolean compares as a number, any other
  value raises.\<close>

fun py_gt_int :: "pyval \<Rightarrow> int \<Rightarrow> py_exn + bool" where
  "py_gt_int (VInt n) k = Inr (n > k)"
| "py_gt_int (VBool b) k = Inr ((if b then 1 else 0) > k)"
| "py_gt_int v k =
     Inl (TypeError (sq @ ''>'' @ sq @ '' not supported between instances of ''
                     @ sq @ type_name v @ sq @ '' and '' @ sq @ ''int'' @ sq))"

text \<open>Lines 304-305.\<close>

definition cap_iterations :: "pyval \<Rightarrow> py_exn + pyval" where
  "cap_iterations iterations =
     bind_exn (py_gt_int iterations 50) (\<lambda>above. Inr (if above then VInt 50 else iterations))"

text \<open>The number of rounds of \<^verbatim>\<open>for i in range(iterations)\<close>.\<close>

fun range_len :: "pyval \<Rightarrow> py_exn + nat" where
  "range_len (VInt n) = Inr (nat n)"
| "range_len (VBool b) = Inr (if b then 1 else 0)"
| "range_len v =
     Inl (TypeError (sq @ type_name v @ sq @ '' object cannot be interpreted as an integer''))"

text \<open>Lines 315-316 and 322-323: the rows are fetched when the statement is a
  projection, and dropped.\<close>

definition fetch_if_projection :: "env \<Rightarrow> nat \<Rightarrow> pyval \<Rightarrow> unit io" where
  "fetch_if_projection e connection query =
     bind_io (lift_io (classify_val query)) (\<lambda>verdict.
       case verdict of
         Projection \<Rightarrow> bind_io (cursor_fetchall e connection) (\<lambda>results. return_io ())
       | Mutation \<Rightarrow> return_io ())"

text \<open>One timed round (lines 320-326), giving the elapsed milliseconds.\<close>

definition timed_run :: "env \<Rightarrow> nat \<Rightarrow> pyval \<Rightarrow> rat io" where
  "timed_run e connection query =
     bind_io (time_time e) (\<lambda>start_time.
     bind_io (cursor_execute e connection (UserQuery query)) (\<lambda>_.
     bind_io (fetch_if_projection e connection query) (\<lambda>_.
     bind_io (time_time e) (\<lambda>end_time.
     return_io ((end_time - start_time) * 1000)))))"

fun benchmark_runs :: "env \<Rightarrow> nat \<Rightarrow> pyval \<Rightarrow> nat \<Rightarrow> rat list \<Rightarrow> rat list io" where
  "benchmark_runs e connection query 0 timings w = (Inr timings, w)"
| "benchmark_runs e connection query (Suc n) timings w =
     (case timed_run e connection query w of
        (Inl ex, w1) \<Rightarrow> (Inl ex, w1)
      | (Inr execution_time, w1) \<Rightarrow>
          benchmark_runs e connection query n (timings @ [execution_time]) w1)"

text \<open>\<^verbatim>\<open>sum(times) / len(times)\<close>, \<^verbatim>\<open>min(times)\<close> and \<^verbatim>\<open>max(times)\<close>; the list
  \<^verbatim>\<open>times\<close> of the source is \<open>timings\<close> here.\<close>

definition avg_time :: "rat list \<Rightarrow> py_exn + rat" where
  "avg_time timings =
     (if length timings = 0 then Inl ZeroDivisionError
      else Inr (sum_list timings / of_nat (length timings)))"

fun min_time :: "rat list \<Rightarrow> py_exn + rat" where
  "min_time [] = Inl (ValueError ''min() arg is an empty sequence'')"
| "min_time (t # ts) = Inr (fold min ts t)"

fun max_time :: "rat list \<Rightarrow> py_exn + rat" where
  "max_time [] = Inl (ValueError ''max() arg is an empty sequence'')"
| "max_time (t # ts) = Inr (fold max ts t)"

text \<open>The \<^verbatim>\<open>repr\<close> of a list of strings without quotes or escapes in them, as
  the rendered times are.\<close>

fun join_comma :: "string list \<Rightarrow> string" where
  "join_comma [] = []"
| "join_comma [s] = s"
| "join_comma (s # t # ss) = s @ '', '' @ join_comma (t # ss)"

definition repr_str_list :: "string list \<Rightarrow> string" where
  "repr_str_list ss = ''['' @ join_comma (map (\<lambda>s. sq @ s @ sq) ss) @ '']''"

definition benchmark_report ::
  "env \<Rightarrow> pyval \<Rightarrow> pyval \<Rightarrow> rat \<Rightarrow> rat \<Rightarrow> rat \<Rightarrow> rat list \<Rightarrow> string" where
  "benchmark_report e query iterations average minimum maximum timings =
     ''Query Benchmark Results'' @ nl
     @ ''======================'' @ nl @ nl
     @ ''Query: '' @ py_str query @ nl
     @ ''Iterations: '' @ py_str iterations @ nl @ nl
     @ ''Average execution time: '' @ fmt_2f e average @ '' ms'' @ nl
     @ ''Minimum execution time: '' @ fmt_2f e minimum @ '' ms'' @ nl
     @ ''Maximum execution time: '' @ fmt_2f e maximum @ '' ms'' @ nl @ nl
     @ ''Individual times: '' @ repr_str_list (map (fmt_2f e) timings) @ '' ms'' @ nl"

definition benchmark_body :: "env \<Rightarrow> nat \<Rightarrow> pyval \<Rightarrow> pyval \<Rightarrow> TextContent list io" where
  "benchmark_body e connection query iterations =
     bind_io (connection_cursor e connection) (\<lambda>cursor.
     bind_io (cursor_execute e connection (UserQuery query)) (\<lambda>_.
     bind_io (fetch_if_projection e connection query) (\<lambda>_.
     bind_io (lift_io (range_len iterations)) (\<lambda>n.
     bind_io (benchmark_runs e connection query n []) (\<lambda>timings.
     bind_io (lift_io (avg_time timings)) (\<lambda>average.
     bind_io (lift_io (min_time timings)) (\<lambda>minimum.
     bind_io (lift_io (max_time timings)) (\<lambda>maximum.
       return_io [TextContent ''text''
                    (benchmark_report e query iterations average minimum maximum timings)]))))))))"

definition benchmark_query ::
  "env \<Rightarrow> TiDBConnection \<Rightarrow> (string \<rightharpoonup> pyval) \<Rightarrow> TextContent list io" where
  "benchmark_query e db arguments =
     (case arguments ''query'' of
        None \<Rightarrow> raise_io (KeyError ''query'')
      | Some query \<Rightarrow>
          bind_io (lift_io (cap_iterations
                     (case arguments ''iterations'' of None \<Rightarrow> VInt 5 | Some v \<Rightarrow> v)))
            (\<lambda>iterations.
          bind_io (get_connection e db) (\<lambda>connection.
          try_finally_close connection (benchmark_body e connection query iterations))))"

section \<open>The dispatcher\<close>

text \<open>\<^verbatim>\<open>call_tool\<close> (lines 119-136). The handler \<^verbatim>\<open>except Exception\<close> takes every
  exception of the model.\<close>

definition tool_names :: "string list" where
  "tool_names = [''execute_sql'', ''get_table_info'', ''get_database_stats'', ''benchmark_query'']"

definition route :: "env \<Rightarrow> TiDBConnection \<Rightarrow> string \<Rightarrow> (string \<rightharpoonup> pyval) \<Rightarrow> TextContent list io" where
  "route e db name arguments =
     (if name = ''execute_sql'' then execute_sql e db arguments
      else if name = ''get_table_info'' then get_table_info e db arguments
      else if name = ''get_database_stats'' then get_database_stats e db arguments
      else if name = ''benchmark_query'' then benchmark_query e db arguments
      else return_io [TextContent ''text'' (''Unknown tool: '' @ name)])"

definition call_tool ::
  "env \<Rightarrow> TiDBConnection \<Rightarrow> string \<Rightarrow> (string \<rightharpoonup> pyval) \<Rightarrow> world \<Rightarrow> TextContent list \<times> world" where
  "call_tool e db name arguments w =
     (case route e db name arguments w of
        (Inr result, w1) \<Rightarrow> (result, w1)
      | (Inl ex, w1) \<Rightarrow> ([TextContent ''text'' (''Error: '' @ str_exn ex)], w1))"

section \<open>Notions used by the verified properties\<close>

text \<open>The events that open or close a connection, and the events an invocation
  adds to the trace.\<close>

fun is_conn_event :: "event \<Rightarrow> bool" where
  "is_conn_event (EConnect a) = True"
| "is_conn_event (EClose h) = True"
| "is_conn_event ev = False"

definition new_events :: "world \<Rightarrow> world \<Rightarrow> event list" where
  "new_events w w' = drop (length (trace w)) (trace w')"

text \<open>A step that leaves the set of open connections alone: it only appends events
  that neither connect nor close.\<close>

definition inner_step :: "world \<Rightarrow> world \<Rightarrow> bool" where
  "inner_step w w' =
     (open_conns w' = open_conns w \<and> next_handle w' = next_handle w \<and>
      take (length (trace w)) (trace w') = trace w \<and>
      list_all (\<lambda>ev. \<not> is_conn_event ev) (new_events w w'))"

definition preserves :: "'a io \<Rightarrow> bool" where
  "preserves m = (\<forall>w. inner_step w (snd (m w)))"

text \<open>Scoped acquisition: an invocation either made no call at all, or tried to
  connect and failed, or connected and closed that very connection as its last
  action.\<close>

definition released :: "env \<Rightarrow> TiDBConnection \<Rightarrow> world \<Rightarrow> world \<Rightarrow> bool" where
  "released e db w w' =
     (open_conns w' = open_conns w \<and>
      trace w' = trace w @ new_events w w' \<and>
      (new_events w w' = []
       \<or> (new_events w w' = [EConnect (connect_kwargs db)]
          \<and> connect_res e (trace w @ [EConnect (connect_kwargs db)]) \<noteq> None)
       \<or> (\<exists>mid. new_events w w' = EConnect (connect_kwargs db) # mid @ [EClose (next_handle w)]
            \<and> list_all (\<lambda>ev. \<not> is_conn_event ev) mid
            \<and> connect_res e (trace w @ [EConnect (connect_kwargs db)]) = None)))"

fun is_connect :: "event \<Rightarrow> bool" where
  "is_connect (EConnect a) = True"
| "is_connect ev = False"

subsection \<open>Concrete environments\<close>

text \<open>A database that answers every call, one that refuses the connection and one
  that rejects every statement; a local configuration and the initial world.\<close>

definition env_ok :: env where
  "env_ok = \<lparr> connect_res = (\<lambda>tr. None), cursor_res = (\<lambda>tr. None), execute_res = (\<lambda>tr. None),
     fetchall_res = (\<lambda>tr. Inr []), fetchone_res = (\<lambda>tr. Inr None), commit_res = (\<lambda>tr. None),
     rowcount_res = (\<lambda>tr. 3), time_res = (\<lambda>tr. of_nat (length tr)),
     fmt_2f = (\<lambda>x. ''0.00''), json_dumps = (\<lambda>rows. ''[]'') \<rparr>"

definition env_down :: env where
  "env_down = env_ok\<lparr> connect_res := (\<lambda>tr. Some ''Connection refused'') \<rparr>"

definition env_bad_sql :: env where
  "env_bad_sql = env_ok\<lparr> execute_res := (\<lambda>tr. Some ''syntax error'') \<rparr>"

definition db_local :: TiDBConnection where
  "db_local = \<lparr> host = ''localhost'', port = 4000, username = ''root'', password = [],
                database = ''test'' \<rparr>"

definition w_init :: world where
  "w_init = \<lparr> trace = [], open_conns = [], next_handle = 0 \<rparr>"

definition db_loopback_ip :: TiDBConnection where
  "db_loopback_ip = \<lparr> host = ''127.0.0.1'', port = 4000, username = ''root'', password = [],
                      database = ''test'' \<rparr>"

definition db_remote :: TiDBConnection where
  "db_remote = \<lparr> host = ''gateway01.prod.example.com'', port = 4000, username = ''app'',
                 password = ''secret'', database = ''shop'' \<rparr>"

text \<open>The calls of a successful \<open>execute_sql\<close>, up to the execute and after it.\<close>

definition time_events :: "bool \<Rightarrow> event list" where
  "time_events measure_time = (if measure_time then [ETime] else [])"

section \<open>Auxiliary lemmas\<close>

lemmas prim_defs = bind_io_def return_io_def raise_io_def lift_io_def bind_exn_def log_event_def driver_call_def
  get_connection_def connection_cursor_def cursor_execute_def cursor_fetchall_def cursor_fetchone_def
  connection_commit_def cursor_rowcount_def connection_close_def time_time_def try_finally_close_def

lemma inner_step_refl: "inner_step w w"
  by (simp add: inner_step_def new_events_def)

lemma inner_step_trans: "inner_step w w1 \<Longrightarrow> inner_step w1 w2 \<Longrightarrow> inner_step w w2"
proof -
  assume a: "inner_step w w1" and b: "inner_step w1 w2"
  from a obtain evs1 where t1: "trace w1 = trace w @ evs1" and l1: "list_all (\<lambda>ev. \<not> is_conn_event ev) evs1"
    unfolding inner_step_def new_events_def by (metis append_take_drop_id)
  from b obtain evs2 where t2: "trace w2 = trace w1 @ evs2" and l2: "list_all (\<lambda>ev. \<not> is_conn_event ev) evs2"
    unfolding inner_step_def new_events_def by (metis append_take_drop_id)
  from a b t1 t2 l1 l2 show ?thesis
    unfolding inner_step_def new_events_def by simp
qed

lemma inner_step_log: "\<not> is_conn_event ev \<Longrightarrow> inner_step w (log_event ev w)"
  by (simp add: inner_step_def new_events_def log_event_def)

lemma inner_stepD:
  "inner_step w w' \<Longrightarrow> \<exists>evs. trace w' = trace w @ evs \<and> list_all (\<lambda>ev. \<not> is_conn_event ev) evs
      \<and> open_conns w' = open_conns w \<and> next_handle w' = next_handle w"
  unfolding inner_step_def new_events_def by (metis append_take_drop_id)

lemma preserves_return: "preserves (return_io x)"
  by (simp add: preserves_def return_io_def inner_step_refl)

lemma preserves_raise: "preserves (raise_io ex)"
  by (simp add: preserves_def raise_io_def inner_step_refl)

lemma preserves_lift: "preserves (lift_io r)"
  by (simp add: preserves_def lift_io_def inner_step_refl)

lemma preserves_driver_call: "\<not> is_conn_event ev \<Longrightarrow> preserves (driver_call ev res)"
  by (auto simp: preserves_def driver_call_def Let_def inner_step_log split: option.splits)

lemma preserves_cursor: "preserves (connection_cursor e c)"
  by (simp add: connection_cursor_def preserves_driver_call)

lemma preserves_execute: "preserves (cursor_execute e c s)"
  by (simp add: cursor_execute_def preserves_driver_call)

lemma preserves_commit: "preserves (connection_commit e c)"
  by (simp add: connection_commit_def preserves_driver_call)

lemma preserves_fetchall: "preserves (cursor_fetchall e c)"
  by (auto simp: preserves_def cursor_fetchall_def Let_def inner_step_log split: sum.splits)

lemma preserves_fetchone: "preserves (cursor_fetchone e c)"
  by (auto simp: preserves_def cursor_fetchone_def Let_def inner_step_log split: sum.splits)

lemma preserves_rowcount: "preserves (cursor_rowcount e c)"
  by (simp add: preserves_def cursor_rowcount_def inner_step_refl)

lemma preserves_time: "preserves (time_time e)"
  by (simp add: preserves_def time_time_def Let_def inner_step_log)

lemma preserves_bind: "preserves m \<Longrightarrow> (\<And>x. preserves (f x)) \<Longrightarrow> preserves (bind_io m f)"
  unfolding preserves_def bind_io_def
  by (auto split: prod.splits sum.splits intro: inner_step_trans)
     (metis inner_step_trans snd_conv)+

lemmas preserves_intros = preserves_bind preserves_return preserves_raise preserves_lift preserves_cursor
  preserves_execute preserves_commit preserves_fetchall preserves_fetchone preserves_rowcount preserves_time

lemma preserves_time_if: "preserves (time_if e b)"
  by (simp add: time_if_def preserves_intros)

lemma preserves_fetch_if_projection: "preserves (fetch_if_projection e c q)"
  unfolding fetch_if_projection_def
  by (intro preserves_intros) (auto split: statement_class.splits intro!: preserves_intros)

lemma preserves_execute_sql_body: "preserves (execute_sql_body e c q mt)"
  unfolding execute_sql_body_def
  by (intro preserves_intros preserves_time_if) (auto split: statement_class.splits intro!: preserves_intros)

lemma preserves_get_table_info_body: "preserves (get_table_info_body e db c tn)"
  unfolding get_table_info_body_def
  by (intro preserves_intros) (auto intro!: preserves_intros)

lemma preserves_get_database_stats_body: "preserves (get_database_stats_body e db c)"
  unfolding get_database_stats_body_def
  by (intro preserves_intros)

lemma preserves_timed_run: "preserves (timed_run e c q)"
  unfolding timed_run_def
  by (intro preserves_intros preserves_fetch_if_projection)

lemma preserves_benchmark_runs: "preserves (benchmark_runs e c q n ts)"
proof (induction n arbitrary: ts)
  case 0
  show ?case by (simp add: preserves_def inner_step_refl)
next
  case (Suc n)
  have "benchmark_runs e c q (Suc n) ts = bind_io (timed_run e c q) (\<lambda>t. benchmark_runs e c q n (ts @ [t]))"
    by (rule ext) (simp add: bind_io_def)
  then show ?case using Suc preserves_timed_run by (simp add: preserves_bind)
qed

lemma preserves_benchmark_body: "preserves (benchmark_body e c q it)"
  unfolding benchmark_body_def
  by (intro preserves_intros preserves_fetch_if_projection preserves_benchmark_runs)

lemma released_refl: "released e db w w"
  by (simp add: released_def new_events_def)

lemma scoped_released:
  assumes body: "\<And>c. preserves (body c)"
    and run: "bind_io (get_connection e db) (\<lambda>c. try_finally_close c (body c)) w = (r, w')"
  shows "released e db w w'"
proof (cases "connect_res e (trace w @ [EConnect (connect_kwargs db)])")
  case (Some m)
  with run have "w' = log_event (EConnect (connect_kwargs db)) w"
    by (auto simp: bind_io_def get_connection_def Let_def log_event_def)
  with Some show ?thesis
    by (simp add: released_def new_events_def log_event_def)
next
  case None
  define h where "h = next_handle w"
  define w1 where "w1 = (log_event (EConnect (connect_kwargs db)) w)
                          \<lparr>open_conns := h # open_conns w, next_handle := Suc h\<rparr>"
  obtain r2 w2 where b: "body h w1 = (r2, w2)" by (cases "body h w1")
  from None run b have w': "w' = connection_close h w2"
    by (auto simp: bind_io_def get_connection_def Let_def log_event_def try_finally_close_def
        w1_def h_def)
  from body[of h] b have "inner_step w1 w2"
    unfolding preserves_def by (metis snd_conv)
  then obtain mid where mid: "trace w2 = trace w1 @ mid" "list_all (\<lambda>ev. \<not> is_conn_event ev) mid"
      "open_conns w2 = open_conns w1"
    using inner_stepD by blast
  have t1: "trace w1 = trace w @ [EConnect (connect_kwargs db)]" and o1: "open_conns w1 = h # open_conns w"
    by (simp_all add: w1_def log_event_def)
  from w' mid t1 o1 have "trace w' = trace w @ EConnect (connect_kwargs db) # mid @ [EClose h]"
      and "open_conns w' = open_conns w"
    by (simp_all add: connection_close_def log_event_def)
  with None mid(2) show ?thesis
    by (simp add: released_def new_events_def h_def)
qed

lemma execute_sql_released: "execute_sql e db arguments w = (r, w') \<Longrightarrow> released e db w w'"
  unfolding execute_sql_def
  by (auto simp: raise_io_def released_refl Let_def split: option.splits
      intro: scoped_released[OF preserves_execute_sql_body])

lemma get_table_info_released: "get_table_info e db arguments w = (r, w') \<Longrightarrow> released e db w w'"
  unfolding get_table_info_def Let_def
  by (rule scoped_released[OF preserves_get_table_info_body])

lemma get_database_stats_released:
  "get_database_stats e db arguments w = (r, w') \<Longrightarrow> released e db w w'"
  unfolding get_database_stats_def
  by (rule scoped_released[OF preserves_get_database_stats_body])

lemma benchmark_query_released: "benchmark_query e db arguments w = (r, w') \<Longrightarrow> released e db w w'"
proof -
  assume run: "benchmark_query e db arguments w = (r, w')"
  show ?thesis
  proof (cases "arguments ''query''")
    case None
    with run show ?thesis by (simp add: benchmark_query_def raise_io_def released_refl)
  next
    case (Some query)
    show ?thesis
    proof (cases "cap_iterations (case arguments ''iterations'' of None \<Rightarrow> VInt 5 | Some v \<Rightarrow> v)")
      case (Inl ex)
      with run Some show ?thesis
        by (simp add: benchmark_query_def bind_io_def lift_io_def released_refl)
    next
      case (Inr iterations)
      with run Some have
        "bind_io (get_connection e db)
           (\<lambda>c. try_finally_close c (benchmark_body e c query iterations)) w = (r, w')"
        by (simp add: benchmark_query_def bind_io_def[of "lift_io _"] lift_io_def)
      then show ?thesis
        by (rule scoped_released[OF preserves_benchmark_body])
    qed
  qed
qed

lemma route_released: "route e db name arguments w = (r, w') \<Longrightarrow> released e db w w'"
  unfolding route_def
  by (auto simp: return_io_def released_refl split: if_splits
      intro: execute_sql_released get_table_info_released get_database_stats_released
        benchmark_query_released)

lemmas io_defs = bind_io_def return_io_def raise_io_def lift_io_def bind_exn_def log_event_def
  driver_call_def get_connection_def connection_cursor_def cursor_execute_def cursor_fetchall_def
  cursor_fetchone_def connection_commit_def cursor_rowcount_def connection_close_def time_time_def
  try_finally_close_def time_if_def connect_kwargs_def

lemmas classify_defs = classify_def startswith_any_def startswith_def py_upper_def
  py_upper_char_def py_strip_def py_isspace_def projection_keywords_def

lemmas fixture_defs = env_ok_def env_down_def env_bad_sql_def db_local_def w_init_def

lemma startswith_prefix: "startswith s p = prefix p s"
  unfolding startswith_def prefix_def
  by (metis append_eq_conv_conj append_take_drop_id)

lemma classify_Projection_iff:
  "classify query = Projection \<longleftrightarrow>
     (\<exists>kw \<in> set projection_keywords. prefix kw (py_upper (py_strip query)))"
  by (simp add: classify_def startswith_any_def list_ex_iff startswith_prefix)

subsection \<open>When a call returns\<close>

lemma bind_io_Inr [simp]:
  "bind_io m f w = (Inr y, w') \<longleftrightarrow> (\<exists>x w1. m w = (Inr x, w1) \<and> f x w1 = (Inr y, w'))"
  by (auto simp: bind_io_def split: prod.splits sum.splits)

lemma return_io_Inr [simp]: "return_io x w = (Inr y, w') \<longleftrightarrow> y = x \<and> w' = w"
  by (auto simp: return_io_def)

lemma lift_io_Inr [simp]: "lift_io r w = (Inr y, w') \<longleftrightarrow> r = Inr y \<and> w' = w"
  by (auto simp: lift_io_def)

lemma raise_io_Inr [simp]: "raise_io ex w \<noteq> (Inr y, w')"
  by (simp add: raise_io_def)

lemma driver_call_Inr [simp]:
  "driver_call ev res w = (Inr u, w') \<longleftrightarrow> res (trace w @ [ev]) = None \<and> w' = log_event ev w"
  by (auto simp: driver_call_def Let_def log_event_def split: option.splits)

lemma cursor_fetchall_Inr [simp]:
  "cursor_fetchall e c w = (Inr rows, w') \<longleftrightarrow>
     fetchall_res e (trace w @ [EFetchall c]) = Inr rows \<and> w' = log_event (EFetchall c) w"
  by (auto simp: cursor_fetchall_def Let_def log_event_def split: sum.splits)

lemma cursor_fetchone_Inr [simp]:
  "cursor_fetchone e c w = (Inr r, w') \<longleftrightarrow>
     fetchone_res e (trace w @ [EFetchone c]) = Inr r \<and> w' = log_event (EFetchone c) w"
  by (auto simp: cursor_fetchone_def Let_def log_event_def split: sum.splits)

lemma cursor_rowcount_Inr [simp]:
  "cursor_rowcount e c w = (Inr n, w') \<longleftrightarrow> n = rowcount_res e (trace w) \<and> w' = w"
  by (auto simp: cursor_rowcount_def)

lemma time_time_Inr [simp]:
  "time_time e w = (Inr t, w') \<longleftrightarrow> t = time_res e (trace w @ [ETime]) \<and> w' = log_event ETime w"
  by (auto simp: time_time_def Let_def log_event_def)

lemma get_connection_Inr [simp]:
  "get_connection e db w = (Inr c, w') \<longleftrightarrow>
     connect_res e (trace w @ [EConnect (connect_kwargs db)]) = None \<and> c = next_handle w \<and>
     w' = (log_event (EConnect (connect_kwargs db)) w)
            \<lparr>open_conns := next_handle w # open_conns w, next_handle := Suc (next_handle w)\<rparr>"
  by (auto simp: get_connection_def Let_def log_event_def split: option.splits)

lemma try_finally_close_eq [simp]:
  "try_finally_close c body w = (r, w') \<longleftrightarrow> (\<exists>w1. body w = (r, w1) \<and> w' = connection_close c w1)"
  by (auto simp: try_finally_close_def split: prod.splits)

lemma trace_log_event [simp]: "trace (log_event ev w) = trace w @ [ev]"
  by (simp add: log_event_def)

lemma next_handle_log_event [simp]: "next_handle (log_event ev w) = next_handle w"
  by (simp add: log_event_def)

lemma open_conns_log_event [simp]: "open_conns (log_event ev w) = open_conns w"
  by (simp add: log_event_def)

lemma trace_connection_close [simp]: "trace (connection_close c w) = trace w @ [EClose c]"
  by (simp add: connection_close_def)

lemma new_events_append [simp]: "trace w' = trace w @ evs \<Longrightarrow> new_events w w' = evs"
  by (simp add: new_events_def)

lemma time_if_Inr [simp]:
  "time_if e b w = (Inr t, w') \<longleftrightarrow>
     (if b then t = Some (time_res e (trace w @ [ETime])) \<and> w' = log_event ETime w
      else t = None \<and> w' = w)"
  by (auto simp: time_if_def)

lemma execute_sql_body_Inr:
  assumes "execute_sql_body e c (VStr q) mt w = (Inr result, w')"
  shows "\<exists>time_line.
     (classify q = Projection \<and>
        (\<exists>rows. fetchall_res e (trace w @ [ECursor c] @ time_events mt
                     @ [EExecute c (UserQuery (VStr q))] @ time_events mt @ [EFetchall c]) = Inr rows
           \<and> result = [TextContent ''text'' (rows_report e time_line rows)]
           \<and> trace w' = trace w @ [ECursor c] @ time_events mt
                     @ [EExecute c (UserQuery (VStr q))] @ time_events mt @ [EFetchall c])
      \<or> classify q = Mutation \<and>
        (\<exists>n. result = [TextContent ''text'' (affected_report time_line n)]
           \<and> trace w' = trace w @ [ECursor c] @ time_events mt
                     @ [EExecute c (UserQuery (VStr q))] @ time_events mt @ [ECommit c]))
     \<and> execution_time_line e mt (if mt then Some (time_res e (trace w @ [ECursor c, ETime])) else None)
          (if mt then Some (time_res e (trace w @ [ECursor c, ETime, EExecute c (UserQuery (VStr q)), ETime])) else None) = Inr time_line"
  using assms
  unfolding execute_sql_body_def connection_cursor_def cursor_execute_def connection_commit_def
  by (cases "classify q"; cases mt) (auto simp: time_events_def)

section \<open>The claims\<close>

text \<open>
  Claim C3. Every tool invocation that acquires a database connection closes it
  before it returns, on every path: the tool may return a report (\<open>Inr\<close>) or raise
  (\<open>Inl\<close>), and in both cases the set of open connections is what it was before the
  call. The calls the invocation made are either none, or one refused connect, or
  one accepted connect, calls on that connection, and the close of that connection
  as the last call.
\<close>

theorem connection_released_on_every_path:
  assumes "route e db name arguments w = (r, w')"
  shows "open_conns w' = open_conns w \<and>
         trace w' = trace w @ new_events w w' \<and>
         (new_events w w' = []
          \<or> (new_events w w' = [EConnect (connect_kwargs db)]
             \<and> connect_res e (trace w @ [EConnect (connect_kwargs db)]) \<noteq> None)
          \<or> (\<exists>mid. new_events w w' = EConnect (connect_kwargs db) # mid @ [EClose (next_handle w)]
               \<and> list_all (\<lambda>ev. \<not> is_conn_event ev) mid
               \<and> connect_res e (trace w @ [EConnect (connect_kwargs db)]) = None))"
  using route_released[OF assms] unfolding released_def .

theorem connection_released_on_every_path_witness:
  "route env_bad_sql db_local ''execute_sql'' [''query'' \<mapsto> VStr ''SELEC 1''] w_init
     = (Inl (DriverError ''syntax error''),
        \<lparr>trace = [EConnect (connect_kwargs db_local), ECursor 0,
                   EExecute 0 (UserQuery (VStr ''SELEC 1'')), EClose 0],
          open_conns = [], next_handle = 1\<rparr>)
   \<and> open_conns \<lparr>trace = [EConnect (connect_kwargs db_local), ECursor 0,
                   EExecute 0 (UserQuery (VStr ''SELEC 1'')), EClose 0],
          open_conns = [], next_handle = 1\<rparr> = open_conns w_init"
proof -
  have run: "route env_bad_sql db_local ''execute_sql'' [''query'' \<mapsto> VStr ''SELEC 1''] w_init
     = (Inl (DriverError ''syntax error''),
        \<lparr>trace = [EConnect (connect_kwargs db_local), ECursor 0,
                   EExecute 0 (UserQuery (VStr ''SELEC 1'')), EClose 0],
          open_conns = [], next_handle = 1\<rparr>)"
    by (simp add: route_def execute_sql_def execute_sql_body_def io_defs fixture_defs)
  from connection_released_on_every_path[OF run] run show ?thesis by simp
qed

end
